theory Spec2Isabelle
  imports Complex_Main
begin

unbundle bit_operations_syntax

section \<open>Data model of FlightControl.py\<close>

text \<open>
  The class \<open>FlightControl\<close> keeps its whole state in attributes of \<open>self\<close>; the
  velocity state lives in attributes that the class writes on the device object
  \<open>self.tello\<close>. Both are records here, and every method takes the record and returns
  the updated one.

  Python integers are \<open>int\<close>. Time stamps (\<open>time.time()\<close>) and the debounce threshold are
  floats in the source; the model takes them as exact reals, so the subtraction and the
  comparison of \<open>checkValidCommand\<close> are the exact ones. Likewise
  \<open>math.floor(a / b)\<close> is the floor of the exact quotient, which is what the float
  quotient gives for the degree values the class assigns (0, 180, 360, and 30).

  Calls to the outside (the drone, the frame reader, \<open>cv2.imwrite\<close>) are recorded, in
  order, in the field \<open>calls\<close>. The decoded frame itself, the name of the written file
  after its folder (it is the local time), \<open>print\<close> and \<open>time.sleep\<close> are not part of
  the model.

  The methods \<open>takeSnap_\<close> and \<open>capturePanorama_\<close> are \<open>takeSnap'\<close> and
  \<open>capturePanorama'\<close> here, since a name cannot end in an underscore.
\<close>

record Tello =
  front_back_velocity :: int
  left_right_velocity :: int
  up_down_velocity :: int
  yaw_velocity :: int
  speed :: int

datatype event =
    Takeoff
  | Land
  | SendRcControl int int int int
  | RotateCounterClockwise int
  | RotateClockwise int
  | GetFrameRead
  | ImWrite string

record FlightControl =
  tello :: Tello
  FOV :: int
  snapOrdered :: bool
  ActionStack :: "(string \<times> real) list"
  timeDifference :: real
  panoramaOrdered :: bool
  panoramaDeg :: int
  totalPanoramaCaptures :: int
  HeavyMode :: bool
  calls :: "event list"

datatype error = ZeroDivisionError

text \<open>
  The result of a device call is chosen by the device. \<open>dev k\<close> is the result value of
  the call made when \<open>k\<close> calls have been recorded so far; \<open>True\<close> is success.
\<close>

type_synonym device = "nat \<Rightarrow> bool"

text \<open>\<open>__init__\<close>, with the velocity attributes as \<open>init\<close> leaves them.\<close>

definition FlightControl_init :: FlightControl where
  "FlightControl_init =
     \<lparr> tello = \<lparr> front_back_velocity = 0, left_right_velocity = 0, up_down_velocity = 0,
                 yaw_velocity = 0, speed = 0 \<rparr>,
       FOV = 30,
       snapOrdered = False,
       ActionStack = [],
       timeDifference = 2 / 10,
       panoramaOrdered = False,
       panoramaDeg = 0,
       totalPanoramaCaptures = 0,
       HeavyMode = False,
       calls = [] \<rparr>"

section \<open>Operations\<close>

definition setAllVelocity :: "FlightControl \<Rightarrow> int \<Rightarrow> FlightControl" where
  "setAllVelocity s val =
     s\<lparr>tello := (tello s)\<lparr>front_back_velocity := 0, left_right_velocity := 0,
                           up_down_velocity := 0, yaw_velocity := 0, speed := 0\<rparr>\<rparr>"

definition call :: "event \<Rightarrow> FlightControl \<Rightarrow> FlightControl" where
  "call e s = s\<lparr>calls := calls s @ [e]\<rparr>"

text \<open>\<open>updateActionTrack\<close>: \<open>t\<close> is the value \<open>time.time()\<close> returns.\<close>

definition updateActionTrack :: "FlightControl \<Rightarrow> string option \<Rightarrow> real \<Rightarrow> FlightControl" where
  "updateActionTrack s key t =
     (case key of
        None \<Rightarrow> s
      | Some k \<Rightarrow> s\<lparr>ActionStack := ActionStack s @ [(k, t)]\<rparr>)"

definition checkValidCommand :: "FlightControl \<Rightarrow> string option \<Rightarrow> bool" where
  "checkValidCommand s command =
     (case command of
        None \<Rightarrow> True
      | Some c \<Rightarrow>
          (if length (ActionStack s) \<ge> 2 then
             (let lst = ActionStack s ! (length (ActionStack s) - 1);
                  second_last = ActionStack s ! (length (ActionStack s) - 2);
                  diff = snd lst - snd second_last
              in if fst lst = fst second_last \<and> diff < timeDifference s then False else True)
           else True))"

definition takeSnap :: "FlightControl \<Rightarrow> string \<Rightarrow> FlightControl" where
  "takeSnap s folderName =
     (if snapOrdered s then (call (ImWrite folderName) s)\<lparr>snapOrdered := False\<rparr> else s)"

definition takeSnap' :: "FlightControl \<Rightarrow> string \<Rightarrow> FlightControl" where
  "takeSnap' s folderName = call (ImWrite folderName) (call GetFrameRead s)"

definition rotate :: "device \<Rightarrow> FlightControl \<Rightarrow> int \<Rightarrow> bool \<times> FlightControl" where
  "rotate dev s degrees =
     (let s1 = setAllVelocity s 0;
          result = dev (length (calls s1))
      in if degrees \<ge> 0 then (result, call (RotateCounterClockwise degrees) s1)
         else (result, call (RotateClockwise (-1 * degrees)) s1))"

text \<open>The \<open>for i in range(n-1)\<close> loop of \<open>capturePanorama_\<close>, by its number of rounds.\<close>

fun panoramaLoop :: "device \<Rightarrow> int \<Rightarrow> nat \<Rightarrow> FlightControl \<Rightarrow> FlightControl" where
  "panoramaLoop dev deg_to_rotate 0 s = s"
| "panoramaLoop dev deg_to_rotate (Suc k) s =
     panoramaLoop dev deg_to_rotate k
       (takeSnap' (snd (rotate dev s deg_to_rotate)) ''panoramas'')"

definition capturePanorama' :: "device \<Rightarrow> FlightControl \<Rightarrow> int \<Rightarrow> int \<Rightarrow> bool \<times> FlightControl" where
  "capturePanorama' dev s deg_to_rotate n =
     (let s1 = takeSnap' s ''panoramas'';
          s2 = panoramaLoop dev deg_to_rotate (nat (n - 1)) s1
      in rotate dev s2 (- (n - 1) * deg_to_rotate))"

text \<open>
  \<open>capturePanorama\<close> in three parts: the assignments before the division (lines 172 to
  178), the count of line 180, and the whole method. The division raises
  \<open>ZeroDivisionError\<close> when \<open>FOV\<close> is 0.
\<close>

definition panoramaEntry :: "FlightControl \<Rightarrow> string \<Rightarrow> FlightControl" where
  "panoramaEntry s degree =
     (let s1 = s\<lparr>panoramaOrdered := True, HeavyMode := True\<rparr>
      in if degree = ''C'' then s1\<lparr>panoramaDeg := 180\<rparr>
         else if degree = ''O'' then s1\<lparr>panoramaDeg := 360\<rparr>
         else s1)"

definition panoramaCount :: "FlightControl \<Rightarrow> error + int" where
  "panoramaCount s =
     (if FOV s = 0 then Inl ZeroDivisionError
      else Inr (max \<lfloor>real_of_int (panoramaDeg s) / real_of_int (FOV s)\<rfloor>
                    (\<lfloor>real_of_int (panoramaDeg s) / real_of_int (FOV s)\<rfloor> + 1)))"

definition capturePanorama :: "device \<Rightarrow> FlightControl \<Rightarrow> string \<Rightarrow> error + FlightControl" where
  "capturePanorama dev s degree =
     (let s1 = panoramaEntry s degree
      in case panoramaCount s1 of
           Inl e \<Rightarrow> Inl e
         | Inr n \<Rightarrow>
             (let s2 = s1\<lparr>totalPanoramaCaptures := n\<rparr>;
                  deg_to_rotate = FOV s2;
                  s3 = snd (capturePanorama' dev s2 deg_to_rotate (totalPanoramaCaptures s2))
              in Inr (s3\<lparr>totalPanoramaCaptures := 0, HeavyMode := False,
                          panoramaOrdered := False\<rparr>)))"

definition calculateAction :: "device \<Rightarrow> FlightControl \<Rightarrow> string option \<Rightarrow> error + FlightControl" where
  "calculateAction dev s command =
     (if checkValidCommand s command then
        (case command of
           None \<Rightarrow> Inr (setAllVelocity s 0)
         | Some c \<Rightarrow>
             if c = ''s'' then Inr (call Takeoff s)
             else if c = ''up'' then Inr (s\<lparr>tello := (tello s)\<lparr>up_down_velocity := 60\<rparr>\<rparr>)
             else if c = ''down'' then Inr (s\<lparr>tello := (tello s)\<lparr>up_down_velocity := - 60\<rparr>\<rparr>)
             else if c = ''left'' then Inr (s\<lparr>tello := (tello s)\<lparr>yaw_velocity := - 60\<rparr>\<rparr>)
             else if c = ''right'' then Inr (s\<lparr>tello := (tello s)\<lparr>yaw_velocity := 60\<rparr>\<rparr>)
             else if c = ''a'' then Inr (s\<lparr>tello := (tello s)\<lparr>left_right_velocity := - 60\<rparr>\<rparr>)
             else if c = ''d'' then Inr (s\<lparr>tello := (tello s)\<lparr>left_right_velocity := 60\<rparr>\<rparr>)
             else if c = ''w'' then Inr (s\<lparr>tello := (tello s)\<lparr>front_back_velocity := 60\<rparr>\<rparr>)
             else if c = ''z'' then Inr (s\<lparr>tello := (tello s)\<lparr>front_back_velocity := - 60\<rparr>\<rparr>)
             else if c = ''p'' then Inr (takeSnap (s\<lparr>snapOrdered := True\<rparr>) ''snaps'')
             else if c = ''c'' then capturePanorama dev s ''C''
             else Inr s)
      else Inr s)"

definition takeAction :: "FlightControl \<Rightarrow> bool \<Rightarrow> FlightControl" where
  "takeAction s land =
     (if \<not> land then
        (if \<not> HeavyMode s then
           call (SendRcControl (left_right_velocity (tello s)) (front_back_velocity (tello s))
                               (up_down_velocity (tello s)) (yaw_velocity (tello s))) s
         else s)
      else call Land (setAllVelocity s 0))"

text \<open>
  \<open>getKeyboardInput\<close>: \<open>waitKey\<close> is what \<open>cv2.waitKey(1)\<close> returns,
  \<open>is_pressed\<close> is \<open>keyboard.is_pressed\<close> and \<open>t\<close> the clock. The \<open>for\<close> loop
  returns the first pressed key of \<open>commands\<close>.
\<close>

definition commands :: "string list" where
  "commands = [''up'', ''down'', ''a'', ''d'', ''w'', ''z'', ''left'', ''right'', ''p'', ''c'']"

definition getKeyboardInput ::
  "int \<Rightarrow> (string \<Rightarrow> bool) \<Rightarrow> real \<Rightarrow> FlightControl \<Rightarrow> string option \<times> FlightControl" where
  "getKeyboardInput waitKey is_pressed t s =
     (if (waitKey AND of_bool (is_pressed ''s'')) \<noteq> 0 then
        (Some ''s'', updateActionTrack s (Some ''s'') t)
      else
        (case find is_pressed commands of
           Some key \<Rightarrow> (Some key, updateActionTrack s (Some key) t)
         | None \<Rightarrow> (None, s)))"

section \<open>Runs of the control loop\<close>

text \<open>
  In the loop of \<open>main.py\<close>, \<open>getKeyboardInput\<close> logs the key it returns and
  \<open>calculateAction\<close> is then applied to that key. \<open>runKeys\<close> does this for a list of
  keys seen at the given times, and stops at an error as the exception would;
  \<open>accepted\<close> says that \<open>checkValidCommand\<close> returned \<open>True\<close> for each of them.
\<close>

fun runKeys :: "device \<Rightarrow> FlightControl \<Rightarrow> (string \<times> real) list \<Rightarrow> error + FlightControl" where
  "runKeys dev s [] = Inr s"
| "runKeys dev s ((k, t) # obs) =
     (case calculateAction dev (updateActionTrack s (Some k) t) (Some k) of
        Inl e \<Rightarrow> Inl e
      | Inr s' \<Rightarrow> runKeys dev s' obs)"

fun accepted :: "device \<Rightarrow> FlightControl \<Rightarrow> (string \<times> real) list \<Rightarrow> bool" where
  "accepted dev s [] = True"
| "accepted dev s ((k, t) # obs) =
     (checkValidCommand (updateActionTrack s (Some k) t) (Some k) \<and>
      (case calculateAction dev (updateActionTrack s (Some k) t) (Some k) of
         Inl e \<Rightarrow> False
       | Inr s' \<Rightarrow> accepted dev s' obs))"

text \<open>The keys of lines 135 to 150, each of which writes one velocity attribute.\<close>

definition singleAxis :: "string \<Rightarrow> bool" where
  "singleAxis k = (k \<in> set [''up'', ''down'', ''left'', ''right'', ''a'', ''d'', ''w'', ''z''])"

text \<open>A device on which every call succeeds, and the velocity calls among the events.\<close>

definition alwaysOk :: device where
  "alwaysOk k = True"

fun isSendRc :: "event \<Rightarrow> bool" where
  "isSendRc (SendRcControl lr fb ud yaw) = True"
| "isSendRc e = False"

section \<open>Auxiliary facts\<close>

subsection \<open>The validity check on the last two log entries\<close>

lemma checkValidCommand_append2:
  "ActionStack s = xs @ [a, b] \<Longrightarrow>
   checkValidCommand s (Some c) = (\<not> (fst b = fst a \<and> snd b - snd a < timeDifference s))"
  by (simp add: checkValidCommand_def Let_def nth_append)

lemma checkValidCommand_short:
  "length (ActionStack s) < 2 \<Longrightarrow> checkValidCommand s (Some c)"
  by (simp add: checkValidCommand_def)

lemma getKeyboardInput_logs:
  "getKeyboardInput waitKey is_pressed t s = (key, s') \<Longrightarrow> s' = updateActionTrack s key t"
  by (auto simp: getKeyboardInput_def updateActionTrack_def split: if_splits option.splits)

subsection \<open>The calls a panorama makes\<close>

lemma calls_rotate:
  "calls (snd (rotate dev s d)) =
     calls s @ [if d \<ge> 0 then RotateCounterClockwise d else RotateClockwise (- d)]"
  by (simp add: rotate_def Let_def setAllVelocity_def call_def)

lemma calls_takeSnap': "calls (takeSnap' s f) = calls s @ [GetFrameRead, ImWrite f]"
  by (simp add: takeSnap'_def call_def)

lemma calls_panoramaLoop:
  "calls (panoramaLoop dev d k s) =
     calls s @ concat (replicate k
       [if d \<ge> 0 then RotateCounterClockwise d else RotateClockwise (- d),
        GetFrameRead, ImWrite ''panoramas''])"
  by (induction k arbitrary: s) (simp_all add: calls_rotate calls_takeSnap')

lemma calls_capturePanorama':
  "calls (snd (capturePanorama' dev s d n)) =
     calls s @ [GetFrameRead, ImWrite ''panoramas'']
       @ concat (replicate (nat (n - 1))
           [if d \<ge> 0 then RotateCounterClockwise d else RotateClockwise (- d),
            GetFrameRead, ImWrite ''panoramas''])
       @ [if - (n - 1) * d \<ge> 0 then RotateCounterClockwise (- (n - 1) * d)
          else RotateClockwise (- (- (n - 1) * d))]"
  by (simp add: capturePanorama'_def Let_def calls_rotate calls_panoramaLoop calls_takeSnap')

lemma filter_concat_replicate:
  "filter P xs = [] \<Longrightarrow> filter P (concat (replicate k xs)) = []"
  by (induction k) simp_all

lemma no_SendRc_capturePanorama':
  "filter isSendRc (calls (snd (capturePanorama' dev s d n))) = filter isSendRc (calls s)"
  by (simp add: calls_capturePanorama' filter_concat_replicate)

lemma panoramaCount_eq:
  "FOV s \<noteq> 0 \<Longrightarrow> panoramaCount s = Inr (panoramaDeg s div FOV s + 1)"
  by (simp add: panoramaCount_def floor_divide_of_int_eq)

subsection \<open>HeavyMode during a panorama\<close>

lemma HeavyMode_rotate: "HeavyMode (snd (rotate dev s d)) = HeavyMode s"
  by (simp add: rotate_def Let_def setAllVelocity_def call_def)

lemma HeavyMode_takeSnap': "HeavyMode (takeSnap' s f) = HeavyMode s"
  by (simp add: takeSnap'_def call_def)

lemma HeavyMode_panoramaLoop: "HeavyMode (panoramaLoop dev d k s) = HeavyMode s"
  by (induction k arbitrary: s) (simp_all add: HeavyMode_rotate HeavyMode_takeSnap')

lemma HeavyMode_capturePanorama': "HeavyMode (snd (capturePanorama' dev s d n)) = HeavyMode s"
  by (simp add: capturePanorama'_def Let_def HeavyMode_rotate HeavyMode_panoramaLoop
      HeavyMode_takeSnap')

lemma HeavyMode_panoramaEntry: "HeavyMode (panoramaEntry s degree)"
  by (simp add: panoramaEntry_def Let_def)

subsection \<open>What no operation changes\<close>

text \<open>
  \<open>FOV\<close> and \<open>timeDifference\<close> are written by \<open>__init__\<close> only, and \<open>panoramaDeg\<close>
  only ever becomes 180 or 360. So every state the loop of \<open>main.py\<close> reaches from
  \<open>FlightControl_init\<close> has \<open>FOV = 30\<close>, \<open>timeDifference = 0.2\<close> and
  \<open>panoramaDeg\<close> 0 or 180.
\<close>

lemma config_rotate:
  "FOV (snd (rotate dev s d)) = FOV s \<and> timeDifference (snd (rotate dev s d)) = timeDifference s
   \<and> panoramaDeg (snd (rotate dev s d)) = panoramaDeg s"
  by (simp add: rotate_def Let_def setAllVelocity_def call_def)

lemma config_takeSnap':
  "FOV (takeSnap' s f) = FOV s \<and> timeDifference (takeSnap' s f) = timeDifference s
   \<and> panoramaDeg (takeSnap' s f) = panoramaDeg s"
  by (simp add: takeSnap'_def call_def)

lemma config_panoramaLoop:
  "FOV (panoramaLoop dev d k s) = FOV s \<and> timeDifference (panoramaLoop dev d k s) = timeDifference s
   \<and> panoramaDeg (panoramaLoop dev d k s) = panoramaDeg s"
  by (induction k arbitrary: s) (simp_all add: config_rotate config_takeSnap')

lemma config_capturePanorama':
  "FOV (snd (capturePanorama' dev s d n)) = FOV s
   \<and> timeDifference (snd (capturePanorama' dev s d n)) = timeDifference s
   \<and> panoramaDeg (snd (capturePanorama' dev s d n)) = panoramaDeg s"
  by (simp add: capturePanorama'_def Let_def config_rotate config_panoramaLoop config_takeSnap')

lemma config_capturePanorama:
  assumes "capturePanorama dev s degree = Inr s'"
  shows "FOV s' = FOV s \<and> timeDifference s' = timeDifference s
   \<and> panoramaDeg s' = (if degree = ''C'' then 180 else if degree = ''O'' then 360 else panoramaDeg s)"
  using assms
  by (auto simp: capturePanorama_def Let_def config_capturePanorama' panoramaEntry_def
      split: sum.splits)

lemma config_calculateAction:
  assumes "calculateAction dev s command = Inr s'"
  shows "FOV s' = FOV s \<and> timeDifference s' = timeDifference s
   \<and> (panoramaDeg s' = panoramaDeg s \<or> panoramaDeg s' = 180)"
proof (cases "checkValidCommand s command \<and> command = Some ''c''")
  case True
  then have "checkValidCommand s (Some ''c'')" and "command = Some ''c''"
    by auto
  with assms have "capturePanorama dev s ''C'' = Inr s'"
    by (simp add: calculateAction_def)
  from config_capturePanorama [OF this] show ?thesis by simp
next
  case False
  with assms show ?thesis
    by (auto simp: calculateAction_def setAllVelocity_def call_def takeSnap_def
        split: if_splits option.splits)
qed

lemma config_takeAction:
  "FOV (takeAction s land) = FOV s \<and> timeDifference (takeAction s land) = timeDifference s
   \<and> panoramaDeg (takeAction s land) = panoramaDeg s"
  by (simp add: takeAction_def setAllVelocity_def call_def)

lemma config_updateActionTrack:
  "FOV (updateActionTrack s key t) = FOV s
   \<and> timeDifference (updateActionTrack s key t) = timeDifference s
   \<and> panoramaDeg (updateActionTrack s key t) = panoramaDeg s"
  by (simp add: updateActionTrack_def split: option.splits)

lemma config_runKeys:
  "runKeys dev s obs = Inr s' \<Longrightarrow>
   FOV s' = FOV s \<and> timeDifference s' = timeDifference s
   \<and> (panoramaDeg s' = panoramaDeg s \<or> panoramaDeg s' = 180)"
proof (induction obs arbitrary: s)
  case Nil
  then show ?case by simp
next
  case (Cons ob obs)
  obtain k t where ob: "ob = (k, t)" by (cases ob)
  from Cons.prems obtain s1 where
    step: "calculateAction dev (updateActionTrack s (Some k) t) (Some k) = Inr s1"
    and rest: "runKeys dev s1 obs = Inr s'"
    by (auto simp: ob split: sum.splits)
  from config_calculateAction [OF step] config_updateActionTrack [of s "Some k" t]
  have "FOV s1 = FOV s \<and> timeDifference s1 = timeDifference s
     \<and> (panoramaDeg s1 = panoramaDeg s \<or> panoramaDeg s1 = 180)"
    by simp
  with Cons.IH [OF rest] show ?case by auto
qed

subsection \<open>Runs of single-axis keys\<close>

lemma takeSnap_idle: "\<not> snapOrdered s \<Longrightarrow> takeSnap s f = s"
  by (simp add: takeSnap_def)

lemma foldl_takeSnap_idle: "\<not> snapOrdered s \<Longrightarrow> foldl takeSnap s fs = s"
  by (induction fs) (simp_all add: takeSnap_idle)

lemma singleAxis_step:
  assumes "singleAxis k" and "checkValidCommand (updateActionTrack s (Some k) t) (Some k)"
  shows "calculateAction dev (updateActionTrack s (Some k) t) (Some k) =
     Inr (s\<lparr>ActionStack := ActionStack s @ [(k, t)],
            tello := (tello s)
              \<lparr>up_down_velocity := (if k = ''up'' then 60 else if k = ''down'' then - 60
                                     else up_down_velocity (tello s)),
               yaw_velocity := (if k = ''right'' then 60 else if k = ''left'' then - 60
                                 else yaw_velocity (tello s)),
               left_right_velocity := (if k = ''d'' then 60 else if k = ''a'' then - 60
                                        else left_right_velocity (tello s)),
               front_back_velocity := (if k = ''w'' then 60 else if k = ''z'' then - 60
                                        else front_back_velocity (tello s))\<rparr>\<rparr>)"
proof -
  from assms(1) have "k = ''up'' \<or> k = ''down'' \<or> k = ''left'' \<or> k = ''right''
      \<or> k = ''a'' \<or> k = ''d'' \<or> k = ''w'' \<or> k = ''z''"
    by (simp add: singleAxis_def)
  then show ?thesis
    using assms(2)
    by (elim disjE) (simp_all add: calculateAction_def, simp_all add: updateActionTrack_def)
qed

lemma runKeys_append:
  "runKeys dev s (xs @ ys) =
     (case runKeys dev s xs of Inl e \<Rightarrow> Inl e | Inr s' \<Rightarrow> runKeys dev s' ys)"
  by (induction xs arbitrary: s) (auto split: sum.splits)

lemma accepted_append:
  "accepted dev s (xs @ ys) =
     (accepted dev s xs \<and>
      (case runKeys dev s xs of Inl e \<Rightarrow> False | Inr s' \<Rightarrow> accepted dev s' ys))"
  by (induction xs arbitrary: s) (auto split: sum.splits)

section \<open>Velocity reset\<close>

text \<open>
  C10. \<open>setAllVelocity(val)\<close> writes 0 to all five velocity attributes whatever \<open>val\<close>
  is, and changes nothing else.
\<close>

theorem setAllVelocity_ignores_val:
  "setAllVelocity s val =
     s\<lparr>tello := \<lparr>front_back_velocity = 0, left_right_velocity = 0, up_down_velocity = 0,
                  yaw_velocity = 0, speed = 0\<rparr>\<rparr>
   \<and> front_back_velocity (tello (setAllVelocity s val)) = 0
   \<and> left_right_velocity (tello (setAllVelocity s val)) = 0
   \<and> up_down_velocity (tello (setAllVelocity s val)) = 0
   \<and> yaw_velocity (tello (setAllVelocity s val)) = 0
   \<and> speed (tello (setAllVelocity s val)) = 0
   \<and> setAllVelocity s val = setAllVelocity s 0"
  by (simp add: setAllVelocity_def)

text \<open>
  C9. With no key (\<open>None\<close>), \<open>checkValidCommand\<close> returns \<open>True\<close> whatever the action
  log holds, and \<open>calculateAction\<close> returns with all five velocity attributes at 0 and
  the rest of the state as it was.
\<close>

theorem none_valid_and_resets:
  "checkValidCommand s None
   \<and> calculateAction dev s None =
       Inr (s\<lparr>tello := \<lparr>front_back_velocity = 0, left_right_velocity = 0, up_down_velocity = 0,
                        yaw_velocity = 0, speed = 0\<rparr>\<rparr>)"
  by (simp add: checkValidCommand_def calculateAction_def setAllVelocity_def)

section \<open>Single-axis commands\<close>

text \<open>
  C6. For each of the keys up, down, left, right, a, d, w and z, an accepted command makes
  \<open>calculateAction\<close> write 60 or -60 to one velocity attribute; the result is the old
  state with that one attribute replaced.
\<close>

theorem single_axis_frame:
  "(checkValidCommand s (Some ''up'') \<longrightarrow>
      calculateAction dev s (Some ''up'') = Inr (s\<lparr>tello := (tello s)\<lparr>up_down_velocity := 60\<rparr>\<rparr>))
 \<and> (checkValidCommand s (Some ''down'') \<longrightarrow>
      calculateAction dev s (Some ''down'') = Inr (s\<lparr>tello := (tello s)\<lparr>up_down_velocity := - 60\<rparr>\<rparr>))
 \<and> (checkValidCommand s (Some ''left'') \<longrightarrow>
      calculateAction dev s (Some ''left'') = Inr (s\<lparr>tello := (tello s)\<lparr>yaw_velocity := - 60\<rparr>\<rparr>))
 \<and> (checkValidCommand s (Some ''right'') \<longrightarrow>
      calculateAction dev s (Some ''right'') = Inr (s\<lparr>tello := (tello s)\<lparr>yaw_velocity := 60\<rparr>\<rparr>))
 \<and> (checkValidCommand s (Some ''a'') \<longrightarrow>
      calculateAction dev s (Some ''a'') = Inr (s\<lparr>tello := (tello s)\<lparr>left_right_velocity := - 60\<rparr>\<rparr>))
 \<and> (checkValidCommand s (Some ''d'') \<longrightarrow>
      calculateAction dev s (Some ''d'') = Inr (s\<lparr>tello := (tello s)\<lparr>left_right_velocity := 60\<rparr>\<rparr>))
 \<and> (checkValidCommand s (Some ''w'') \<longrightarrow>
      calculateAction dev s (Some ''w'') = Inr (s\<lparr>tello := (tello s)\<lparr>front_back_velocity := 60\<rparr>\<rparr>))
 \<and> (checkValidCommand s (Some ''z'') \<longrightarrow>
      calculateAction dev s (Some ''z'') = Inr (s\<lparr>tello := (tello s)\<lparr>front_back_velocity := - 60\<rparr>\<rparr>))"
  by (simp add: calculateAction_def)

text \<open>The same on the state \<open>__init__\<close> builds, where every key is accepted.\<close>

theorem single_axis_frame_witness:
  "checkValidCommand FlightControl_init (Some ''up'')
 \<and> calculateAction alwaysOk FlightControl_init (Some ''up'')
     = Inr (FlightControl_init\<lparr>tello := (tello FlightControl_init)\<lparr>up_down_velocity := 60\<rparr>\<rparr>)
 \<and> checkValidCommand FlightControl_init (Some ''down'')
 \<and> calculateAction alwaysOk FlightControl_init (Some ''down'')
     = Inr (FlightControl_init\<lparr>tello := (tello FlightControl_init)\<lparr>up_down_velocity := - 60\<rparr>\<rparr>)
 \<and> checkValidCommand FlightControl_init (Some ''left'')
 \<and> calculateAction alwaysOk FlightControl_init (Some ''left'')
     = Inr (FlightControl_init\<lparr>tello := (tello FlightControl_init)\<lparr>yaw_velocity := - 60\<rparr>\<rparr>)
 \<and> checkValidCommand FlightControl_init (Some ''right'')
 \<and> calculateAction alwaysOk FlightControl_init (Some ''right'')
     = Inr (FlightControl_init\<lparr>tello := (tello FlightControl_init)\<lparr>yaw_velocity := 60\<rparr>\<rparr>)
 \<and> checkValidCommand FlightControl_init (Some ''a'')
 \<and> calculateAction alwaysOk FlightControl_init (Some ''a'')
     = Inr (FlightControl_init\<lparr>tello := (tello FlightControl_init)\<lparr>left_right_velocity := - 60\<rparr>\<rparr>)
 \<and> checkValidCommand FlightControl_init (Some ''d'')
 \<and> calculateAction alwaysOk FlightControl_init (Some ''d'')
     = Inr (FlightControl_init\<lparr>tello := (tello FlightControl_init)\<lparr>left_right_velocity := 60\<rparr>\<rparr>)
 \<and> checkValidCommand FlightControl_init (Some ''w'')
 \<and> calculateAction alwaysOk FlightControl_init (Some ''w'')
     = Inr (FlightControl_init\<lparr>tello := (tello FlightControl_init)\<lparr>front_back_velocity := 60\<rparr>\<rparr>)
 \<and> checkValidCommand FlightControl_init (Some ''z'')
 \<and> calculateAction alwaysOk FlightControl_init (Some ''z'')
     = Inr (FlightControl_init\<lparr>tello := (tello FlightControl_init)\<lparr>front_back_velocity := - 60\<rparr>\<rparr>)"
proof -
  have v: "checkValidCommand FlightControl_init (Some c)" for c
    by (simp add: checkValidCommand_short FlightControl_init_def)
  from single_axis_frame [of FlightControl_init alwaysOk] v show ?thesis
    by simp
qed

section \<open>Debounce\<close>

text \<open>
  C2. Let key \<open>k\<close> be seen at time \<open>t\<close>. \<open>updateActionTrack\<close> appends \<open>(k, t)\<close> to
  the log in every case. When the log ended in \<open>(kp, tp)\<close> and the threshold is 0.2 s,
  the check that follows rejects the command exactly when \<open>k = kp\<close> and
  \<open>t - tp < 0.2\<close>. A rejected command leaves the state, with the new log entry, as it
  is.
\<close>

theorem debounce_rejects_iff:
  "ActionStack (updateActionTrack s (Some k) t) = ActionStack s @ [(k, t)]
 \<and> (timeDifference s = 2 / 10 \<and> ActionStack s = xs @ [(kp, tp)] \<longrightarrow>
      (\<not> checkValidCommand (updateActionTrack s (Some k) t) (Some k))
        = (k = kp \<and> t - tp < 2 / 10))
 \<and> (\<not> checkValidCommand (updateActionTrack s (Some k) t) (Some k) \<longrightarrow>
      calculateAction dev (updateActionTrack s (Some k) t) (Some k)
        = Inr (updateActionTrack s (Some k) t))"
proof (intro conjI impI)
  let ?s = "updateActionTrack s (Some k) t"
  show "ActionStack ?s = ActionStack s @ [(k, t)]"
    by (simp add: updateActionTrack_def)
  show "calculateAction dev ?s (Some k) = Inr ?s" if "\<not> checkValidCommand ?s (Some k)"
    using that by (simp add: calculateAction_def)
  assume a: "timeDifference s = 2 / 10 \<and> ActionStack s = xs @ [(kp, tp)]"
  then have log: "ActionStack ?s = xs @ [(kp, tp), (k, t)]"
    by (simp add: updateActionTrack_def)
  have td: "timeDifference ?s = 2 / 10"
    using a by (simp add: updateActionTrack_def)
  show "(\<not> checkValidCommand ?s (Some k)) = (k = kp \<and> t - tp < 2 / 10)"
    using checkValidCommand_append2 [OF log, of k] td by simp
qed

text \<open>Key w at 5 s and again at 5.1 s: logged, rejected, state unchanged.\<close>

theorem debounce_rejects_iff_witness:
  "timeDifference (FlightControl_init\<lparr>ActionStack := [(''w'', 5)]\<rparr>) = 2 / 10
 \<and> ActionStack (FlightControl_init\<lparr>ActionStack := [(''w'', 5)]\<rparr>) = [] @ [(''w'', 5)]
 \<and> ActionStack (updateActionTrack (FlightControl_init\<lparr>ActionStack := [(''w'', 5)]\<rparr>)
       (Some ''w'') (51 / 10)) = [(''w'', 5), (''w'', 51 / 10)]
 \<and> \<not> checkValidCommand (updateActionTrack (FlightControl_init\<lparr>ActionStack := [(''w'', 5)]\<rparr>)
       (Some ''w'') (51 / 10)) (Some ''w'')
 \<and> calculateAction alwaysOk (updateActionTrack (FlightControl_init\<lparr>ActionStack := [(''w'', 5)]\<rparr>)
       (Some ''w'') (51 / 10)) (Some ''w'')
     = Inr (updateActionTrack (FlightControl_init\<lparr>ActionStack := [(''w'', 5)]\<rparr>)
         (Some ''w'') (51 / 10))"
  using debounce_rejects_iff
    [where s = "FlightControl_init\<lparr>ActionStack := [(''w'', 5)]\<rparr>" and xs = "[]"
       and kp = "''w''" and tp = 5 and k = "''w''" and t = "51 / 10" and dev = alwaysOk]
  by (simp add: FlightControl_init_def)

text \<open>
  C4, as the code has it. The first command of a run is always accepted, since the log
  then has fewer than two entries. The second is compared with the first like any later
  one: it is accepted unless it has the same identifier and came less than the threshold
  after it. A command whose identifier differs from the one logged before it is always
  accepted.
\<close>

theorem first_and_differing_accepted:
  "(ActionStack s = [] \<longrightarrow> checkValidCommand (updateActionTrack s (Some k) t) (Some k))
 \<and> (ActionStack s = [(kp, tp)] \<longrightarrow>
      checkValidCommand (updateActionTrack s (Some k) t) (Some k)
        = (\<not> (k = kp \<and> t - tp < timeDifference s)))
 \<and> (ActionStack s = xs @ [(kp, tp)] \<and> k \<noteq> kp \<longrightarrow>
      checkValidCommand (updateActionTrack s (Some k) t) (Some k))"
proof (intro conjI impI)
  assume "ActionStack s = []"
  then show "checkValidCommand (updateActionTrack s (Some k) t) (Some k)"
    by (simp add: checkValidCommand_short updateActionTrack_def)
next
  assume "ActionStack s = [(kp, tp)]"
  then have "ActionStack (updateActionTrack s (Some k) t) = [] @ [(kp, tp), (k, t)]"
    by (simp add: updateActionTrack_def)
  from checkValidCommand_append2 [OF this]
  show "checkValidCommand (updateActionTrack s (Some k) t) (Some k)
        = (\<not> (k = kp \<and> t - tp < timeDifference s))"
    by (simp add: updateActionTrack_def)
next
  assume "ActionStack s = xs @ [(kp, tp)] \<and> k \<noteq> kp"
  then have "ActionStack (updateActionTrack s (Some k) t) = xs @ [(kp, tp), (k, t)]"
    and "k \<noteq> kp"
    by (simp_all add: updateActionTrack_def)
  from checkValidCommand_append2 [OF this(1)] this(2)
  show "checkValidCommand (updateActionTrack s (Some k) t) (Some k)"
    by simp
qed

text \<open>
  The first key on the fresh state; a second key w 0.3 s after a first w; and key z
  0.1 s after key w.
\<close>

theorem first_and_differing_accepted_witness:
  "ActionStack FlightControl_init = []
 \<and> checkValidCommand (updateActionTrack FlightControl_init (Some ''w'') 5) (Some ''w'')
 \<and> ActionStack (FlightControl_init\<lparr>ActionStack := [(''w'', 5)]\<rparr>) = [(''w'', 5)]
 \<and> checkValidCommand
      (updateActionTrack (FlightControl_init\<lparr>ActionStack := [(''w'', 5)]\<rparr>) (Some ''w'') (53 / 10))
      (Some ''w'')
 \<and> ActionStack (FlightControl_init\<lparr>ActionStack := [(''w'', 5)]\<rparr>) = [] @ [(''w'', 5)]
 \<and> ''z'' \<noteq> ''w''
 \<and> checkValidCommand
      (updateActionTrack (FlightControl_init\<lparr>ActionStack := [(''w'', 5)]\<rparr>) (Some ''z'') (51 / 10))
      (Some ''z'')"
proof -
  let ?s = "FlightControl_init\<lparr>ActionStack := [(''w'', 5)]\<rparr>"
  have e: "ActionStack FlightControl_init = []" and l: "ActionStack ?s = [(''w'', 5)]"
    and td: "timeDifference ?s = 2 / 10"
    by (simp_all add: FlightControl_init_def)
  have a: "checkValidCommand (updateActionTrack FlightControl_init (Some ''w'') 5) (Some ''w'')"
    using first_and_differing_accepted [where s = FlightControl_init and k = "''w''" and t = 5] e
    by blast
  have b: "checkValidCommand (updateActionTrack ?s (Some ''w'') (53 / 10)) (Some ''w'')"
    using first_and_differing_accepted
      [where s = ?s and kp = "''w''" and tp = 5 and k = "''w''" and t = "53 / 10"] l td
    by simp
  have c: "checkValidCommand (updateActionTrack ?s (Some ''z'') (51 / 10)) (Some ''z'')"
    using first_and_differing_accepted
      [where s = ?s and kp = "''w''" and tp = 5 and k = "''z''" and t = "51 / 10" and xs = "[]"] l
    by simp
  show ?thesis using e l a b c by simp
qed

text \<open>
  The second of the first two commands can be rejected: key w at 5 s and at 5.1 s on the
  fresh state.
\<close>

theorem second_command_rejected:
  "\<not> checkValidCommand
       (updateActionTrack (updateActionTrack FlightControl_init (Some ''w'') 5)
          (Some ''w'') (51 / 10))
       (Some ''w'')"
  by (simp add: checkValidCommand_def updateActionTrack_def FlightControl_init_def)

section \<open>Velocity state after a run of single-axis commands\<close>

text \<open>
  C5, as the code has it. After a run of accepted single-axis commands, each velocity
  attribute holds the value written by the latest command of the run on that axis (60 or
  -60), or its value before the run when no command of the run was on that axis. So
  two opposing commands are never combined, the later one wins on its axis; commands on
  different axes are kept side by side. \<open>speed\<close> is not touched.
\<close>

theorem last_command_wins_per_axis:
  assumes "list_all (\<lambda>ob. singleAxis (fst ob)) obs" and "accepted dev s obs"
  shows "\<exists>s'. runKeys dev s obs = Inr s'
     \<and> up_down_velocity (tello s') =
         (let cs = filter (\<lambda>ob. fst ob = ''up'' \<or> fst ob = ''down'') obs
          in if cs = [] then up_down_velocity (tello s)
             else if fst (last cs) = ''up'' then 60 else - 60)
     \<and> yaw_velocity (tello s') =
         (let cs = filter (\<lambda>ob. fst ob = ''right'' \<or> fst ob = ''left'') obs
          in if cs = [] then yaw_velocity (tello s)
             else if fst (last cs) = ''right'' then 60 else - 60)
     \<and> left_right_velocity (tello s') =
         (let cs = filter (\<lambda>ob. fst ob = ''d'' \<or> fst ob = ''a'') obs
          in if cs = [] then left_right_velocity (tello s)
             else if fst (last cs) = ''d'' then 60 else - 60)
     \<and> front_back_velocity (tello s') =
         (let cs = filter (\<lambda>ob. fst ob = ''w'' \<or> fst ob = ''z'') obs
          in if cs = [] then front_back_velocity (tello s)
             else if fst (last cs) = ''w'' then 60 else - 60)
     \<and> speed (tello s') = speed (tello s)"
  using assms
proof (induction obs rule: rev_induct)
  case Nil
  then show ?case by simp
next
  case (snoc ob obs)
  obtain k t where ob: "ob = (k, t)" by (cases ob)
  from snoc.prems have ax: "singleAxis k" and all: "list_all (\<lambda>ob. singleAxis (fst ob)) obs"
    by (simp_all add: ob)
  from snoc.prems(2) have acc: "accepted dev s obs"
    by (simp add: accepted_append)
  from snoc.IH [OF all acc] obtain s1 where
    run: "runKeys dev s obs = Inr s1"
    and ud: "up_down_velocity (tello s1) =
         (let cs = filter (\<lambda>ob. fst ob = ''up'' \<or> fst ob = ''down'') obs
          in if cs = [] then up_down_velocity (tello s)
             else if fst (last cs) = ''up'' then 60 else - 60)"
    and yw: "yaw_velocity (tello s1) =
         (let cs = filter (\<lambda>ob. fst ob = ''right'' \<or> fst ob = ''left'') obs
          in if cs = [] then yaw_velocity (tello s)
             else if fst (last cs) = ''right'' then 60 else - 60)"
    and lr: "left_right_velocity (tello s1) =
         (let cs = filter (\<lambda>ob. fst ob = ''d'' \<or> fst ob = ''a'') obs
          in if cs = [] then left_right_velocity (tello s)
             else if fst (last cs) = ''d'' then 60 else - 60)"
    and fb: "front_back_velocity (tello s1) =
         (let cs = filter (\<lambda>ob. fst ob = ''w'' \<or> fst ob = ''z'') obs
          in if cs = [] then front_back_velocity (tello s)
             else if fst (last cs) = ''w'' then 60 else - 60)"
    and sp: "speed (tello s1) = speed (tello s)"
    by blast
  from snoc.prems(2) run have valid: "checkValidCommand (updateActionTrack s1 (Some k) t) (Some k)"
    by (simp add: accepted_append ob split: sum.splits)
  note step = singleAxis_step [OF ax valid, of dev]
  have run': "runKeys dev s (obs @ [ob]) =
      calculateAction dev (updateActionTrack s1 (Some k) t) (Some k)"
    by (simp add: runKeys_append run ob step)
  from ax have "k = ''up'' \<or> k = ''down'' \<or> k = ''left'' \<or> k = ''right''
      \<or> k = ''a'' \<or> k = ''d'' \<or> k = ''w'' \<or> k = ''z''"
    by (simp add: singleAxis_def)
  then show ?case
    unfolding run' step
    by (elim disjE) (simp_all add: ob ud yw lr fb sp Let_def)
qed

text \<open>Keys up, down and w, one second apart, on the fresh state: down wins over up, w stays.\<close>

theorem last_command_wins_per_axis_witness:
  "list_all (\<lambda>ob. singleAxis (fst ob)) [(''up'', 1 :: real), (''down'', 2), (''w'', 3)]
 \<and> accepted alwaysOk FlightControl_init [(''up'', 1), (''down'', 2), (''w'', 3)]
 \<and> (\<exists>s'. runKeys alwaysOk FlightControl_init [(''up'', 1), (''down'', 2), (''w'', 3)] = Inr s'
       \<and> up_down_velocity (tello s') = - 60
       \<and> yaw_velocity (tello s') = 0
       \<and> left_right_velocity (tello s') = 0
       \<and> front_back_velocity (tello s') = 60
       \<and> speed (tello s') = 0)"
proof -
  let ?obs = "[(''up'', 1 :: real), (''down'', 2), (''w'', 3)]"
  have ax: "list_all (\<lambda>ob. singleAxis (fst ob)) ?obs"
    by (simp add: singleAxis_def)
  have acc: "accepted alwaysOk FlightControl_init ?obs"
    by (simp add: FlightControl_init_def calculateAction_def checkValidCommand_def
        updateActionTrack_def)
  from last_command_wins_per_axis [OF ax acc] ax acc show ?thesis
    by (simp add: FlightControl_init_def)
qed

text \<open>
  Two axes armed at once: keys up and w, one second apart, on the fresh state are both
  accepted and leave \<open>up_down_velocity\<close> and \<open>front_back_velocity\<close> at 60.
\<close>

theorem two_axes_armed:
  "singleAxis ''up'' \<and> singleAxis ''w''
 \<and> accepted alwaysOk FlightControl_init [(''up'', 1), (''w'', 2)]
 \<and> runKeys alwaysOk FlightControl_init [(''up'', 1), (''w'', 2)] =
     Inr (FlightControl_init
           \<lparr>tello := \<lparr>front_back_velocity = 60, left_right_velocity = 0, up_down_velocity = 60,
                       yaw_velocity = 0, speed = 0\<rparr>,
            ActionStack := [(''up'', 1), (''w'', 2)]\<rparr>)"
  by (simp add: singleAxis_def FlightControl_init_def calculateAction_def checkValidCommand_def
      updateActionTrack_def)

section \<open>Snapshots\<close>

text \<open>
  C7. Once \<open>snapOrdered\<close> is set, any number (at least one) of \<open>takeSnap\<close> calls
  writes exactly one file, in the first call, and leaves the flag cleared; with the flag
  cleared, \<open>takeSnap\<close> calls change nothing. The request itself, an accepted key p,
  sets the flag and calls \<open>takeSnap\<close> at once, so it returns with one file written and
  the flag cleared.
\<close>

theorem one_write_per_snap_request:
  "(snapOrdered s \<and> fs \<noteq> [] \<longrightarrow>
      foldl takeSnap s fs = (call (ImWrite (hd fs)) s)\<lparr>snapOrdered := False\<rparr>
      \<and> calls (foldl takeSnap s fs) = calls s @ [ImWrite (hd fs)]
      \<and> \<not> snapOrdered (foldl takeSnap s fs))
 \<and> (\<not> snapOrdered s \<longrightarrow> foldl takeSnap s fs = s)
 \<and> (checkValidCommand s (Some ''p'') \<longrightarrow>
      calculateAction dev s (Some ''p'')
        = Inr ((call (ImWrite ''snaps'') s)\<lparr>snapOrdered := False\<rparr>))"
proof (intro conjI impI)
  assume a: "snapOrdered s \<and> fs \<noteq> []"
  then obtain f gs where fs: "fs = f # gs" by (cases fs) auto
  have "foldl takeSnap s fs = foldl takeSnap ((call (ImWrite f) s)\<lparr>snapOrdered := False\<rparr>) gs"
    using a by (simp add: fs takeSnap_def)
  also have "\<dots> = (call (ImWrite f) s)\<lparr>snapOrdered := False\<rparr>"
    by (rule foldl_takeSnap_idle) simp
  finally show e: "foldl takeSnap s fs = (call (ImWrite (hd fs)) s)\<lparr>snapOrdered := False\<rparr>"
    by (simp add: fs)
  show "calls (foldl takeSnap s fs) = calls s @ [ImWrite (hd fs)]"
    by (simp add: e call_def)
  show "\<not> snapOrdered (foldl takeSnap s fs)"
    by (simp add: e)
next
  assume "\<not> snapOrdered s"
  then show "foldl takeSnap s fs = s" by (rule foldl_takeSnap_idle)
next
  assume "checkValidCommand s (Some ''p'')"
  then show "calculateAction dev s (Some ''p'')
      = Inr ((call (ImWrite ''snaps'') s)\<lparr>snapOrdered := False\<rparr>)"
    by (simp add: calculateAction_def takeSnap_def call_def)
qed

text \<open>
  Three \<open>takeSnap\<close> calls with the flag set, three with it cleared, and key p on the
  fresh state.
\<close>

theorem one_write_per_snap_request_witness:
  "snapOrdered (FlightControl_init\<lparr>snapOrdered := True\<rparr>)
 \<and> [''snaps'', ''snaps'', ''snaps''] \<noteq> []
 \<and> calls (foldl takeSnap (FlightControl_init\<lparr>snapOrdered := True\<rparr>) [''snaps'', ''snaps'', ''snaps''])
     = [ImWrite ''snaps'']
 \<and> \<not> snapOrdered
       (foldl takeSnap (FlightControl_init\<lparr>snapOrdered := True\<rparr>) [''snaps'', ''snaps'', ''snaps''])
 \<and> \<not> snapOrdered FlightControl_init
 \<and> foldl takeSnap FlightControl_init [''snaps'', ''snaps'', ''snaps''] = FlightControl_init
 \<and> checkValidCommand FlightControl_init (Some ''p'')
 \<and> calculateAction alwaysOk FlightControl_init (Some ''p'')
     = Inr (FlightControl_init\<lparr>calls := [ImWrite ''snaps'']\<rparr>)"
proof -
  let ?s = "FlightControl_init\<lparr>snapOrdered := True\<rparr>" and ?fs = "[''snaps'', ''snaps'', ''snaps'']"
  have f: "snapOrdered ?s" "\<not> snapOrdered FlightControl_init" "calls FlightControl_init = []"
    by (simp_all add: FlightControl_init_def)
  have v: "checkValidCommand FlightControl_init (Some ''p'')"
    by (simp add: checkValidCommand_short FlightControl_init_def)
  from one_write_per_snap_request [where s = ?s and fs = ?fs] f
  have a: "calls (foldl takeSnap ?s ?fs) = [ImWrite ''snaps'']"
    and b: "\<not> snapOrdered (foldl takeSnap ?s ?fs)"
    by (simp_all add: call_def)
  from one_write_per_snap_request [where s = FlightControl_init and fs = ?fs and dev = alwaysOk] f v
  have c: "foldl takeSnap FlightControl_init ?fs = FlightControl_init"
    and d: "calculateAction alwaysOk FlightControl_init (Some ''p'')
       = Inr ((call (ImWrite ''snaps'') FlightControl_init)\<lparr>snapOrdered := False\<rparr>)"
    by simp_all
  have "(call (ImWrite ''snaps'') FlightControl_init)\<lparr>snapOrdered := False\<rparr>
      = FlightControl_init\<lparr>calls := [ImWrite ''snaps'']\<rparr>"
    by (simp add: call_def FlightControl_init_def)
  with a b c d f v show ?thesis by simp
qed

section \<open>Velocity flush and HeavyMode\<close>

text \<open>
  C3. With \<open>HeavyMode\<close> set, \<open>takeAction(land=False)\<close> changes nothing and makes no
  call. The calls \<open>takeAction\<close> makes are: \<open>land\<close> when landing, nothing when
  \<open>HeavyMode\<close> is set, and one \<open>send_rc_control\<close> otherwise; so \<open>send_rc_control\<close>
  is reached only with \<open>HeavyMode\<close> false. \<open>capturePanorama\<close> sets \<open>HeavyMode\<close> on
  entry, every step of the sequence (\<open>rotate\<close>, \<open>takeSnap_\<close>, the loop, the whole of
  \<open>capturePanorama_\<close>) keeps it set, and the sequence itself makes no
  \<open>send_rc_control\<close> call.
\<close>

theorem heavy_mode_blocks_flush:
  "(HeavyMode s \<longrightarrow> takeAction s False = s)
 \<and> calls (takeAction s land) =
      calls s @ (if land then [Land]
                 else if HeavyMode s then []
                 else [SendRcControl (left_right_velocity (tello s)) (front_back_velocity (tello s))
                                     (up_down_velocity (tello s)) (yaw_velocity (tello s))])
 \<and> HeavyMode (panoramaEntry s degree)
 \<and> (HeavyMode s \<longrightarrow>
       HeavyMode (snd (rotate dev s d)) \<and> HeavyMode (takeSnap' s f)
       \<and> HeavyMode (panoramaLoop dev d k s) \<and> HeavyMode (snd (capturePanorama' dev s d n)))
 \<and> filter isSendRc (calls (snd (capturePanorama' dev s d n))) = filter isSendRc (calls s)"
  by (simp add: takeAction_def call_def setAllVelocity_def HeavyMode_rotate HeavyMode_takeSnap'
      HeavyMode_panoramaLoop HeavyMode_capturePanorama' HeavyMode_panoramaEntry
      no_SendRc_capturePanorama')

text \<open>A flush on the state a panorama runs in, and the steps of the sequence from there.\<close>

theorem heavy_mode_blocks_flush_witness:
  "HeavyMode (panoramaEntry FlightControl_init ''C'')
 \<and> takeAction (panoramaEntry FlightControl_init ''C'') False = panoramaEntry FlightControl_init ''C''
 \<and> calls (takeAction (panoramaEntry FlightControl_init ''C'') False) = []
 \<and> calls (takeAction FlightControl_init False) = [SendRcControl 0 0 0 0]
 \<and> HeavyMode (snd (rotate alwaysOk (panoramaEntry FlightControl_init ''C'') 30))
 \<and> HeavyMode (takeSnap' (panoramaEntry FlightControl_init ''C'') ''panoramas'')
 \<and> HeavyMode (panoramaLoop alwaysOk 30 6 (panoramaEntry FlightControl_init ''C''))
 \<and> HeavyMode (snd (capturePanorama' alwaysOk (panoramaEntry FlightControl_init ''C'') 30 7))"
proof -
  let ?s = "panoramaEntry FlightControl_init ''C''"
  have h: "HeavyMode ?s" "calls ?s = []" "\<not> HeavyMode FlightControl_init"
    "calls FlightControl_init = []" "tello FlightControl_init =
      \<lparr>front_back_velocity = 0, left_right_velocity = 0, up_down_velocity = 0,
       yaw_velocity = 0, speed = 0\<rparr>"
    by (simp_all add: panoramaEntry_def FlightControl_init_def)
  from heavy_mode_blocks_flush
    [where s = ?s and land = False and dev = alwaysOk and d = 30 and f = "''panoramas''"
       and k = 6 and n = 7] h
  have a: "takeAction ?s False = ?s" "calls (takeAction ?s False) = []"
    "HeavyMode (snd (rotate alwaysOk ?s 30))" "HeavyMode (takeSnap' ?s ''panoramas'')"
    "HeavyMode (panoramaLoop alwaysOk 30 6 ?s)"
    "HeavyMode (snd (capturePanorama' alwaysOk ?s 30 7))"
    by simp_all
  from heavy_mode_blocks_flush [where s = FlightControl_init and land = False] h
  have b: "calls (takeAction FlightControl_init False) = [SendRcControl 0 0 0 0]"
    by simp
  from a b h show ?thesis by simp
qed

section \<open>Panorama\<close>

text \<open>
  C8. \<open>capturePanorama\<close> raises only when \<open>FOV\<close> is 0 (the division); otherwise it
  returns, and the state it returns has \<open>HeavyMode\<close> false, \<open>totalPanoramaCaptures\<close> 0
  and \<open>panoramaOrdered\<close> false, whatever result values \<open>dev\<close> gives for the calls of the
  sequence.
\<close>

theorem capturePanorama_exit_clears:
  "(case capturePanorama dev s degree of
      Inl e \<Rightarrow> FOV s = 0
    | Inr s' \<Rightarrow> FOV s \<noteq> 0 \<and> \<not> HeavyMode s' \<and> totalPanoramaCaptures s' = 0
                 \<and> \<not> panoramaOrdered s')"
  by (simp add: capturePanorama_def panoramaCount_def panoramaEntry_def Let_def)

text \<open>
  C1. With \<open>FOV = 30\<close>, \<open>capturePanorama("C")\<close> computes the count
  \<open>max(floor(180/30), floor(180/30)+1) = 7\<close>, runs \<open>capturePanorama_\<close> with step 30 and
  count 7, and returns; the calls it makes are, in order, one capture, six times a
  counter-clockwise rotation by 30 followed by a capture, and the corrective rotation
  \<open>rotate(-180)\<close>, a clockwise rotation by 180: 7 writes, 6 rotations of +30, one of
  -180. In general the count is \<open>floor(panoramaDeg / FOV) + 1\<close> whenever \<open>FOV\<close> is not 0,
  and it is at least 1 for \<open>FOV > 0\<close> and \<open>panoramaDeg \<ge> 0\<close>, which is all the class
  ever sets.
\<close>

theorem capturePanorama_C_seven_captures:
  "(FOV s = 30 \<longrightarrow>
      panoramaCount (panoramaEntry s ''C'')
        = Inr (max \<lfloor>180 / 30 :: real\<rfloor> (\<lfloor>180 / 30 :: real\<rfloor> + 1))
    \<and> panoramaCount (panoramaEntry s ''C'') = Inr 7
    \<and> capturePanorama dev s ''C'' =
        Inr ((snd (capturePanorama' dev ((panoramaEntry s ''C'')\<lparr>totalPanoramaCaptures := 7\<rparr>) 30 7))
               \<lparr>totalPanoramaCaptures := 0, HeavyMode := False, panoramaOrdered := False\<rparr>)
    \<and> (let new = [GetFrameRead, ImWrite ''panoramas'',
            RotateCounterClockwise 30, GetFrameRead, ImWrite ''panoramas'',
            RotateCounterClockwise 30, GetFrameRead, ImWrite ''panoramas'',
            RotateCounterClockwise 30, GetFrameRead, ImWrite ''panoramas'',
            RotateCounterClockwise 30, GetFrameRead, ImWrite ''panoramas'',
            RotateCounterClockwise 30, GetFrameRead, ImWrite ''panoramas'',
            RotateCounterClockwise 30, GetFrameRead, ImWrite ''panoramas'',
            RotateClockwise 180]
        in (\<exists>s'. capturePanorama dev s ''C'' = Inr s' \<and> calls s' = calls s @ new)
           \<and> count_list new (ImWrite ''panoramas'') = 7
           \<and> count_list new (RotateCounterClockwise 30) = 6
           \<and> count_list new (RotateClockwise 180) = 1
           \<and> last new = RotateClockwise 180))
 \<and> capturePanorama' dev s 30 7
      = rotate dev (panoramaLoop dev 30 6 (takeSnap' s ''panoramas'')) (- 180)
 \<and> (FOV s \<noteq> 0 \<longrightarrow>
      panoramaCount s = Inr (\<lfloor>real_of_int (panoramaDeg s) / real_of_int (FOV s)\<rfloor> + 1))
 \<and> (0 < FOV s \<and> 0 \<le> panoramaDeg s \<longrightarrow>
      (\<exists>n. panoramaCount s = Inr n \<and> n = panoramaDeg s div FOV s + 1 \<and> 1 \<le> n))"
proof (intro conjI impI)
  assume f: "FOV s = 30"
  let ?e = "panoramaEntry s ''C''"
  have e: "FOV ?e = 30" "panoramaDeg ?e = 180" "calls ?e = calls s"
    using f by (simp_all add: panoramaEntry_def Let_def)
  show "panoramaCount ?e = Inr (max \<lfloor>180 / 30 :: real\<rfloor> (\<lfloor>180 / 30 :: real\<rfloor> + 1))"
    by (simp add: panoramaCount_def e)
  show c: "panoramaCount ?e = Inr 7"
    by (simp add: panoramaCount_def e)
  let ?r = "snd (capturePanorama' dev (?e\<lparr>totalPanoramaCaptures := 7\<rparr>) 30 7)"
  show r: "capturePanorama dev s ''C'' =
          Inr (?r\<lparr>totalPanoramaCaptures := 0, HeavyMode := False, panoramaOrdered := False\<rparr>)"
    by (simp add: capturePanorama_def Let_def c e)
  have "calls ?r = calls s @ [GetFrameRead, ImWrite ''panoramas'',
            RotateCounterClockwise 30, GetFrameRead, ImWrite ''panoramas'',
            RotateCounterClockwise 30, GetFrameRead, ImWrite ''panoramas'',
            RotateCounterClockwise 30, GetFrameRead, ImWrite ''panoramas'',
            RotateCounterClockwise 30, GetFrameRead, ImWrite ''panoramas'',
            RotateCounterClockwise 30, GetFrameRead, ImWrite ''panoramas'',
            RotateCounterClockwise 30, GetFrameRead, ImWrite ''panoramas'',
            RotateClockwise 180]"
    by (simp add: calls_capturePanorama' e eval_nat_numeral)
  with r show "let new = [GetFrameRead, ImWrite ''panoramas'',
            RotateCounterClockwise 30, GetFrameRead, ImWrite ''panoramas'',
            RotateCounterClockwise 30, GetFrameRead, ImWrite ''panoramas'',
            RotateCounterClockwise 30, GetFrameRead, ImWrite ''panoramas'',
            RotateCounterClockwise 30, GetFrameRead, ImWrite ''panoramas'',
            RotateCounterClockwise 30, GetFrameRead, ImWrite ''panoramas'',
            RotateCounterClockwise 30, GetFrameRead, ImWrite ''panoramas'',
            RotateClockwise 180]
        in (\<exists>s'. capturePanorama dev s ''C'' = Inr s' \<and> calls s' = calls s @ new)
           \<and> count_list new (ImWrite ''panoramas'') = 7
           \<and> count_list new (RotateCounterClockwise 30) = 6
           \<and> count_list new (RotateClockwise 180) = 1
           \<and> last new = RotateClockwise 180"
    by (simp add: Let_def)
next
  show "capturePanorama' dev s 30 7
      = rotate dev (panoramaLoop dev 30 6 (takeSnap' s ''panoramas'')) (- 180)"
    by (simp add: capturePanorama'_def Let_def)
next
  assume "FOV s \<noteq> 0"
  then show "panoramaCount s = Inr (\<lfloor>real_of_int (panoramaDeg s) / real_of_int (FOV s)\<rfloor> + 1)"
    by (simp add: panoramaCount_def)
next
  assume a: "0 < FOV s \<and> 0 \<le> panoramaDeg s"
  then have "0 \<le> panoramaDeg s div FOV s"
    by (simp add: pos_imp_zdiv_nonneg_iff)
  with a show "\<exists>n. panoramaCount s = Inr n \<and> n = panoramaDeg s div FOV s + 1 \<and> 1 \<le> n"
    by (simp add: panoramaCount_eq)
qed

text \<open>
  The half-circle panorama on the fresh state, and the count on the fresh state itself
  (\<open>panoramaDeg = 0\<close>): one capture.
\<close>

theorem capturePanorama_C_seven_captures_witness:
  "FOV FlightControl_init = 30
 \<and> panoramaCount (panoramaEntry FlightControl_init ''C'') = Inr 7
 \<and> capturePanorama alwaysOk FlightControl_init ''C'' =
     Inr (FlightControl_init\<lparr>panoramaDeg := 180, calls := [GetFrameRead, ImWrite ''panoramas'',
            RotateCounterClockwise 30, GetFrameRead, ImWrite ''panoramas'',
            RotateCounterClockwise 30, GetFrameRead, ImWrite ''panoramas'',
            RotateCounterClockwise 30, GetFrameRead, ImWrite ''panoramas'',
            RotateCounterClockwise 30, GetFrameRead, ImWrite ''panoramas'',
            RotateCounterClockwise 30, GetFrameRead, ImWrite ''panoramas'',
            RotateCounterClockwise 30, GetFrameRead, ImWrite ''panoramas'',
            RotateClockwise 180]\<rparr>)
 \<and> FOV FlightControl_init \<noteq> 0
 \<and> 0 < FOV FlightControl_init \<and> 0 \<le> panoramaDeg FlightControl_init
 \<and> panoramaCount FlightControl_init = Inr 1"
proof -
  have h: "FOV FlightControl_init = 30" "panoramaDeg FlightControl_init = 0"
    by (simp_all add: FlightControl_init_def)
  note w = capturePanorama_C_seven_captures [where s = FlightControl_init and dev = alwaysOk]
  from w h have c: "panoramaCount (panoramaEntry FlightControl_init ''C'') = Inr 7"
    by simp
  from w h have r: "capturePanorama alwaysOk FlightControl_init ''C'' =
        Inr ((snd (capturePanorama' alwaysOk
                ((panoramaEntry FlightControl_init ''C'')\<lparr>totalPanoramaCaptures := 7\<rparr>) 30 7))
               \<lparr>totalPanoramaCaptures := 0, HeavyMode := False, panoramaOrdered := False\<rparr>)"
    by simp
  from w h have one: "panoramaCount FlightControl_init = Inr 1"
    by simp
  have "(snd (capturePanorama' alwaysOk
                ((panoramaEntry FlightControl_init ''C'')\<lparr>totalPanoramaCaptures := 7\<rparr>) 30 7))
               \<lparr>totalPanoramaCaptures := 0, HeavyMode := False, panoramaOrdered := False\<rparr>
        = FlightControl_init\<lparr>panoramaDeg := 180, calls := [GetFrameRead, ImWrite ''panoramas'',
            RotateCounterClockwise 30, GetFrameRead, ImWrite ''panoramas'',
            RotateCounterClockwise 30, GetFrameRead, ImWrite ''panoramas'',
            RotateCounterClockwise 30, GetFrameRead, ImWrite ''panoramas'',
            RotateCounterClockwise 30, GetFrameRead, ImWrite ''panoramas'',
            RotateCounterClockwise 30, GetFrameRead, ImWrite ''panoramas'',
            RotateCounterClockwise 30, GetFrameRead, ImWrite ''panoramas'',
            RotateClockwise 180]\<rparr>"
    by (simp add: capturePanorama'_def rotate_def takeSnap'_def call_def setAllVelocity_def
        panoramaEntry_def FlightControl_init_def Let_def eval_nat_numeral)
  with r c one h show ?thesis by simp
qed

end
